theory Spec2Isabelle
  imports Main
begin

section \<open>Errors, contexts and the adapter record\<close>

text \<open>
  A Go \<open>error\<close> value is modelled by its message; \<open>fmt.Errorf("msg: %w", err)\<close> prepends
  \<open>msg: \<close> to the message of the wrapped error. A run-time panic (a nil dereference) is
  not a returned error: it unwinds through every caller, which \<open>wrap\<close> leaves untouched.
\<close>

datatype error = Error string | Panic string

fun wrap :: "string \<Rightarrow> error \<Rightarrow> error" where
  "wrap msg (Error e) = Error (msg @ e)"
| "wrap msg (Panic p) = Panic p"

text \<open>
  A \<open>context.Context\<close> as seen at the moment of a call: the background context, which
  is never cancelled, a derived context that is still live, or a derived context that
  is already done.
\<close>

datatype "context" = Background | Live | Canceled | DeadlineExceeded

fun ctx_Err :: "context \<Rightarrow> string option" where
  "ctx_Err Background = None"
| "ctx_Err Live = None"
| "ctx_Err Canceled = Some ''context canceled''"
| "ctx_Err DeadlineExceeded = Some ''context deadline exceeded''"

text \<open>
  Database handles: \<open>*pgx.Conn\<close> and \<open>*pgxpool.Pool\<close>, both of which implement the
  interface \<open>DB\<close>. A handle is identified by the number it was opened under.
\<close>

datatype handle = Conn nat | Pool nat

text \<open>
  \<open>PgxAdapter\<close>, with the fields of the struct. A nil interface or pointer is \<open>None\<close>.
  The query builder \<open>psql\<close> is a constant of the package and the mutex \<open>mu\<close> guards
  \<open>isFiltered\<close> only; neither carries data.
\<close>

record PgxAdapter =
  db :: "handle option"
  conn :: "nat option"
  pool :: "nat option"
  tableName :: string
  database :: string
  isFiltered :: bool
  indexes :: "string list list"
  usePool :: bool

definition defaultTableName :: string where
  "defaultTableName = ''casbin_rule''"

definition defaultDatabase :: string where
  "defaultDatabase = ''casbin''"

text \<open>The zero value of the struct, as \<open>var cfg PgxAdapter\<close> creates it.\<close>

definition zero_PgxAdapter :: PgxAdapter where
  "zero_PgxAdapter = \<lparr>db = None, conn = None, pool = None, tableName = [], database = [],
     isFiltered = False, indexes = [], usePool = False\<rparr>"

text \<open>\<open>type Option func(*PgxAdapter)\<close>: an option updates the adapter it is applied to.\<close>

type_synonym Option = "PgxAdapter \<Rightarrow> PgxAdapter"

definition WithTableName :: "string \<Rightarrow> Option" where
  "WithTableName t = (\<lambda>a. a\<lparr>tableName := t\<rparr>)"

definition WithDatabaseName :: "string \<Rightarrow> Option" where
  "WithDatabaseName d = (\<lambda>a. a\<lparr>database := d\<rparr>)"


definition WithPool :: Option where
  "WithPool = (\<lambda>a. a\<lparr>usePool := True\<rparr>)"

text \<open>\<open>for _, opt := range opts { opt(a) }\<close>\<close>

fun apply_opts :: "Option list \<Rightarrow> PgxAdapter \<Rightarrow> PgxAdapter" where
  "apply_opts [] a = a"
| "apply_opts (opt # opts) a = apply_opts opts (opt a)"

section \<open>Identifier quoting and the DDL text\<close>

definition dquote :: char where
  "dquote = CHR 0x22"

definition squote :: char where
  "squote = CHR 0x27"

definition tab :: char where
  "tab = CHR 0x09"

definition nul :: char where
  "nul = CHR 0x00"

text \<open>\<open>strings.Join(elems, sep)\<close>\<close>

fun strings_Join :: "string list \<Rightarrow> string \<Rightarrow> string" where
  "strings_Join [] sep = []"
| "strings_Join [x] sep = x"
| "strings_Join (x # y # ys) sep = x @ sep @ strings_Join (y # ys) sep"

text \<open>
  \<open>pgx.Identifier.Sanitize\<close> belongs to the driver, not to this repository. Its behaviour
  in pgx v5: every part loses its NUL bytes, has each double quote doubled, is wrapped in
  double quotes, and the parts are joined by a dot.
\<close>

definition strip_nul :: "string \<Rightarrow> string" where
  "strip_nul s = filter (\<lambda>c. c \<noteq> nul) s"

fun double_quotes :: "string \<Rightarrow> string" where
  "double_quotes [] = []"
| "double_quotes (c # cs) = (if c = dquote then dquote # dquote # double_quotes cs
                             else c # double_quotes cs)"

definition quote_part :: "string \<Rightarrow> string" where
  "quote_part s = [dquote] @ double_quotes (strip_nul s) @ [dquote]"

definition Sanitize :: "string list \<Rightarrow> string" where
  "Sanitize ident = strings_Join (map quote_part ident) ''.''"

text \<open>
  The three statements of the bootstrap, as \<open>createTable\<close> and \<open>createIndex\<close> build them.
  The text that follows the table name is the same for every adapter and has a name of
  its own.
\<close>

definition tableColumnsSQL :: string where
  "tableColumnsSQL =
     '' (\<newline>'' @
     [tab, tab] @ ''id SERIAL PRIMARY KEY,\<newline>'' @
     [tab, tab] @ ''ptype VARCHAR(100) NOT NULL,\<newline>'' @
     [tab, tab] @ ''v0 VARCHAR(100),\<newline>'' @
     [tab, tab] @ ''v1 VARCHAR(100),\<newline>'' @
     [tab, tab] @ ''v2 VARCHAR(100),\<newline>'' @
     [tab, tab] @ ''v3 VARCHAR(100),\<newline>'' @
     [tab, tab] @ ''v4 VARCHAR(100),\<newline>'' @
     [tab, tab] @ ''v5 VARCHAR(100)\<newline>'' @
     [tab] @ '')''"

definition createTableSQL :: "PgxAdapter \<Rightarrow> string" where
  "createTableSQL a = ''CREATE TABLE IF NOT EXISTS '' @ Sanitize [tableName a] @ tableColumnsSQL"

definition coalesce_text :: "string \<Rightarrow> string" where
  "coalesce_text c = ''COALESCE('' @ c @ '','' @ [squote, squote] @ '')''"

definition uniqueColumnsSQL :: string where
  "uniqueColumnsSQL =
     ''ptype, '' @
     coalesce_text ''v0'' @ '', '' @ coalesce_text ''v1'' @ '', '' @ coalesce_text ''v2'' @ '', '' @
     coalesce_text ''v3'' @ '', '' @ coalesce_text ''v4'' @ '', '' @ coalesce_text ''v5'' @ '')''"

definition uniqueIndexSQL :: "PgxAdapter \<Rightarrow> string" where
  "uniqueIndexSQL a =
     ''CREATE UNIQUE INDEX IF NOT EXISTS '' @ Sanitize [''idx_'' @ tableName a] @ ''\<newline>'' @
     [tab, tab] @ ''ON '' @ Sanitize [tableName a] @ ''('' @ uniqueColumnsSQL"

definition indexName :: "PgxAdapter \<Rightarrow> string list \<Rightarrow> string" where
  "indexName a columns = ''idx_'' @ tableName a @ ''_'' @ strings_Join columns ''_''"

definition createIndexSQL :: "PgxAdapter \<Rightarrow> string list \<Rightarrow> string" where
  "createIndexSQL a columns =
     ''CREATE INDEX IF NOT EXISTS '' @ Sanitize [indexName a columns] @
     '' ON '' @ Sanitize [tableName a] @ ''('' @
     strings_Join (map (\<lambda>col. Sanitize [col]) columns) '', '' @ '')''"

section \<open>The database server\<close>

text \<open>
  The server is an external collaborator. Its model keeps what the adapter can observe:
  a catalogue of relations (tables and indexes share one namespace), listed in the order
  of their creation, the handles opened and closed so far, whether a connection attempt
  or a liveness probe fails, and the history of the statements received. Stored rows have
  the columns of the adapter's table. Identifiers are compared byte for byte; the model
  neither folds the case of unquoted names nor truncates long names, and it does not
  check the column expressions of an index against the table.
\<close>

record db_row =
  row_id :: int
  row_ptype :: "string option"
  row_v0 :: "string option"
  row_v1 :: "string option"
  row_v2 :: "string option"
  row_v3 :: "string option"
  row_v4 :: "string option"
  row_v5 :: "string option"

datatype relation = Table string "db_row list" | Index bool string string

text \<open>
  The select statement as the query builder holds it: result columns, table, the
  conjunction of \<open>column IN (values)\<close> predicates, and the ordering columns.
\<close>

record select_query =
  sel_columns :: "string list"
  sel_from :: string
  sel_where :: "(string \<times> string list) list"
  sel_order_by :: "string list"

datatype event = SetIsFiltered bool | DbExec string | DbQuery select_query

record world =
  relations :: "(string \<times> relation) list"
  opened :: nat
  closed :: "handle list"
  connect_fault :: "string \<Rightarrow> string option"
  ping_fault :: "string option"
  history :: "event list"

subsection \<open>Reading a statement\<close>

fun strip_prefix :: "string \<Rightarrow> string \<Rightarrow> string option" where
  "strip_prefix [] s = Some s"
| "strip_prefix (p # ps) [] = None"
| "strip_prefix (p # ps) (c # cs) = (if p = c then strip_prefix ps cs else None)"

text \<open>
  The body of a delimited identifier, after its opening quote: it runs to the first
  double quote that is not doubled, and a doubled quote stands for one quote.
\<close>

fun read_body :: "string \<Rightarrow> (string \<times> string) option" where
  "read_body [] = None"
| "read_body [c] = (if c = dquote then Some ([], []) else None)"
| "read_body (c # d # cs) =
     (if c \<noteq> dquote then map_option (\<lambda>(n, r). (c # n, r)) (read_body (d # cs))
      else if d = dquote then map_option (\<lambda>(n, r). (dquote # n, r)) (read_body cs)
      else Some ([], d # cs))"

fun read_ident :: "string \<Rightarrow> (string \<times> string) option" where
  "read_ident [] = None"
| "read_ident (c # cs) = (if c = dquote then read_body cs else None)"

fun skip_space :: "string \<Rightarrow> string" where
  "skip_space [] = []"
| "skip_space (c # cs) =
     (if c = CHR '' '' \<or> c = CHR ''\<newline>'' \<or> c = tab then skip_space cs else c # cs)"

datatype stmt = CreateTable string string | CreateIndex bool string string string

definition read_index :: "bool \<Rightarrow> string \<Rightarrow> stmt option" where
  "read_index uniq s =
     (case read_ident s of
        None \<Rightarrow> None
      | Some (iname, r) \<Rightarrow>
          (case strip_prefix ''ON '' (skip_space r) of
             None \<Rightarrow> None
           | Some r' \<Rightarrow>
               (case read_ident r' of
                  None \<Rightarrow> None
                | Some (tname, r'') \<Rightarrow>
                    (case strip_prefix ''('' r'' of
                       None \<Rightarrow> None
                     | Some cols \<Rightarrow> Some (CreateIndex uniq iname tname cols)))))"

definition read_stmt :: "string \<Rightarrow> stmt option" where
  "read_stmt sql =
     (case strip_prefix ''CREATE TABLE IF NOT EXISTS '' sql of
        Some r \<Rightarrow>
          (case read_ident r of
             None \<Rightarrow> None
           | Some (tname, body) \<Rightarrow> Some (CreateTable tname body))
      | None \<Rightarrow>
          (case strip_prefix ''CREATE UNIQUE INDEX IF NOT EXISTS '' sql of
             Some r \<Rightarrow> read_index True r
           | None \<Rightarrow>
               (case strip_prefix ''CREATE INDEX IF NOT EXISTS '' sql of
                  Some r \<Rightarrow> read_index False r
                | None \<Rightarrow> None)))"


subsection \<open>Executing a statement\<close>

text \<open>
  \<open>CREATE ... IF NOT EXISTS\<close>: a zero-length identifier is an error; an index needs its
  table to exist and to be a table; when a relation of the name exists already the
  statement is skipped with a notice and the catalogue stays as it is; otherwise the
  relation is added at the end of the catalogue.
\<close>

fun apply_stmt :: "stmt \<Rightarrow> (string \<times> relation) list \<Rightarrow> string + (string \<times> relation) list" where
  "apply_stmt (CreateTable tname body) cat =
     (if tname = [] then Inl ''zero-length delimited identifier''
      else if map_of cat tname \<noteq> None then Inr cat
      else Inr (cat @ [(tname, Table body [])]))"
| "apply_stmt (CreateIndex uniq iname tname cols) cat =
     (if iname = [] \<or> tname = [] then Inl ''zero-length delimited identifier''
      else (case map_of cat tname of
              None \<Rightarrow> Inl ''relation does not exist''
            | Some (Index u t c) \<Rightarrow> Inl ''cannot create index on relation''
            | Some (Table b rows) \<Rightarrow>
                if map_of cat iname \<noteq> None then Inr cat
                else Inr (cat @ [(iname, Index uniq tname cols)])))"

text \<open>
  \<open>Exec(ctx, sql)\<close> on a handle. A closed handle refuses the call before anything is
  sent; otherwise the statement enters the history and is read and executed.
\<close>

definition pg_Exec :: "handle \<Rightarrow> string \<Rightarrow> world \<Rightarrow> error option \<times> world" where
  "pg_Exec h sql w =
     (if h \<in> set (closed w) then (Some (Error ''conn closed''), w)
      else
        (let w1 = w\<lparr>history := history w @ [DbExec sql]\<rparr> in
         case read_stmt sql of
           None \<Rightarrow> (Some (Error ''syntax error''), w1)
         | Some st \<Rightarrow>
             (case apply_stmt st (relations w1) of
                Inl e \<Rightarrow> (Some (Error e), w1)
              | Inr cat \<Rightarrow> (None, w1\<lparr>relations := cat\<rparr>))))"

section \<open>Schema bootstrap\<close>

text \<open>
  \<open>createIndex\<close>: one \<open>CREATE INDEX IF NOT EXISTS\<close> statement for a requested column list.
  Calling \<open>Exec\<close> through a nil \<open>db\<close> panics.
\<close>

definition createIndex :: "PgxAdapter \<Rightarrow> string list \<Rightarrow> world \<Rightarrow> error option \<times> world" where
  "createIndex a columns w =
     (case db a of
        None \<Rightarrow> (Some (Panic ''nil pointer dereference''), w)
      | Some h \<Rightarrow>
          (case pg_Exec h (createIndexSQL a columns) w of
             (Some err, w') \<Rightarrow>
               (Some (wrap (''failed to create index '' @ indexName a columns @ '': '') err), w')
           | (None, w') \<Rightarrow> (None, w')))"

text \<open>The loop of \<open>createTable\<close> over \<open>a.indexes\<close>: the first failure ends it.\<close>

fun createIndexes :: "PgxAdapter \<Rightarrow> string list list \<Rightarrow> world \<Rightarrow> error option \<times> world" where
  "createIndexes a [] w = (None, w)"
| "createIndexes a (columns # rest) w =
     (case createIndex a columns w of
        (Some err, w') \<Rightarrow> (Some err, w')
      | (None, w') \<Rightarrow> createIndexes a rest w')"

definition createTable :: "PgxAdapter \<Rightarrow> world \<Rightarrow> error option \<times> world" where
  "createTable a w =
     (case db a of
        None \<Rightarrow> (Some (Panic ''nil pointer dereference''), w)
      | Some h \<Rightarrow>
          (case pg_Exec h (createTableSQL a) w of
             (Some err, w1) \<Rightarrow> (Some (wrap ''failed to create table: '' err), w1)
           | (None, w1) \<Rightarrow>
               (case pg_Exec h (uniqueIndexSQL a) w1 of
                  (Some err, w2) \<Rightarrow> (Some (wrap ''failed to create index: '' err), w2)
                | (None, w2) \<Rightarrow> createIndexes a (indexes a) w2)))"

section \<open>Construction\<close>

text \<open>
  The driver's \<open>pgx.Connect\<close> and \<open>pgxpool.New\<close> return a fresh handle or an error;
  \<open>Ping\<close> is the liveness probe; \<open>Close\<close> marks the handle closed.
\<close>

definition pgx_Connect :: "string \<Rightarrow> world \<Rightarrow> (string + nat) \<times> world" where
  "pgx_Connect connStr w =
     (case connect_fault w connStr of
        Some e \<Rightarrow> (Inl e, w)
      | None \<Rightarrow> (Inr (opened w), w\<lparr>opened := Suc (opened w)\<rparr>))"

definition pgxpool_New :: "string \<Rightarrow> world \<Rightarrow> (string + nat) \<times> world" where
  "pgxpool_New connStr w =
     (case connect_fault w connStr of
        Some e \<Rightarrow> (Inl e, w)
      | None \<Rightarrow> (Inr (opened w), w\<lparr>opened := Suc (opened w)\<rparr>))"

definition pg_Ping :: "handle \<Rightarrow> world \<Rightarrow> string option" where
  "pg_Ping h w = (if h \<in> set (closed w) then Some ''conn closed'' else ping_fault w)"

definition pg_Close :: "handle \<Rightarrow> world \<Rightarrow> world" where
  "pg_Close h w = w\<lparr>closed := closed w @ [h]\<rparr>"

text \<open>
  The constructors return the Go pair \<open>(*PgxAdapter, error)\<close>, together with the world
  they leave behind.
\<close>

definition NewAdapterWithConn ::
  "nat option \<Rightarrow> Option list \<Rightarrow> world \<Rightarrow> (PgxAdapter option \<times> error option) \<times> world" where
  "NewAdapterWithConn c opts w =
     (let a = apply_opts opts
                \<lparr>db = map_option Conn c, conn = c, pool = None,
                 tableName = defaultTableName, database = defaultDatabase,
                 isFiltered = False, indexes = [], usePool = False\<rparr>
      in case createTable a w of
           (Some err, w') \<Rightarrow> ((None, Some (wrap ''failed to create table: '' err)), w')
         | (None, w') \<Rightarrow> ((Some a, None), w'))"

definition NewAdapterWithPool ::
  "nat option \<Rightarrow> Option list \<Rightarrow> world \<Rightarrow> (PgxAdapter option \<times> error option) \<times> world" where
  "NewAdapterWithPool p opts w =
     (let a = apply_opts opts
                \<lparr>db = map_option Pool p, conn = None, pool = p,
                 tableName = defaultTableName, database = defaultDatabase,
                 isFiltered = False, indexes = [], usePool = False\<rparr>
      in case createTable a w of
           (Some err, w') \<Rightarrow> ((None, Some (wrap ''failed to create table: '' err)), w')
         | (None, w') \<Rightarrow> ((Some a, None), w'))"

definition NewAdapter ::
  "string \<Rightarrow> Option list \<Rightarrow> world \<Rightarrow> (PgxAdapter option \<times> error option) \<times> world" where
  "NewAdapter connStr opts w =
     (let cfg = apply_opts opts zero_PgxAdapter in
      if usePool cfg then
        (case pgxpool_New connStr w of
           (Inl err, w1) \<Rightarrow>
             ((None, Some (Error (''failed to create connection pool: '' @ err))), w1)
         | (Inr p, w1) \<Rightarrow>
             (case pg_Ping (Pool p) w1 of
                Some err \<Rightarrow>
                  ((None, Some (Error (''failed to ping database: '' @ err))), pg_Close (Pool p) w1)
              | None \<Rightarrow> NewAdapterWithPool (Some p) opts w1))
      else
        (case pgx_Connect connStr w of
           (Inl err, w1) \<Rightarrow>
             ((None, Some (Error (''failed to create connection: '' @ err))), w1)
         | (Inr c, w1) \<Rightarrow>
             (case pg_Ping (Conn c) w1 of
                Some err \<Rightarrow>
                  ((None, Some (Error (''failed to ping database: '' @ err))), pg_Close (Conn c) w1)
              | None \<Rightarrow> NewAdapterWithConn (Some c) opts w1)))"

section \<open>Filters and the select statement\<close>

record Filter =
  Ptype :: "string list"
  V0 :: "string list"
  V1 :: "string list"
  V2 :: "string list"
  V3 :: "string list"
  V4 :: "string list"
  V5 :: "string list"

record BatchFilter =
  Filters :: "Filter list"

text \<open>
  The \<open>filter any\<close> argument: the nil interface, the five dynamic types the type switch
  names (a pointer may be a nil pointer), and a value of any other type, which is
  represented by the name of its type.
\<close>

datatype any =
    ANil
  | AFilter Filter
  | APtrFilter "Filter option"
  | ABatchFilter BatchFilter
  | APtrBatchFilter "BatchFilter option"
  | AFilterSlice "Filter list"
  | AOther string

text \<open>
  The query builder (squirrel): \<open>Select\<close>, \<open>From\<close>, \<open>OrderBy\<close> and \<open>Where\<close> with an
  \<open>Eq\<close> predicate on one column. \<open>ToSql\<close> refuses a statement without result columns.
\<close>

definition sq_Select :: "string list \<Rightarrow> select_query" where
  "sq_Select cols = \<lparr>sel_columns = cols, sel_from = [], sel_where = [], sel_order_by = []\<rparr>"

definition sq_From :: "string \<Rightarrow> select_query \<Rightarrow> select_query" where
  "sq_From t q = q\<lparr>sel_from := t\<rparr>"

definition sq_OrderBy :: "string \<Rightarrow> select_query \<Rightarrow> select_query" where
  "sq_OrderBy c q = q\<lparr>sel_order_by := sel_order_by q @ [c]\<rparr>"

definition sq_Eq :: "string \<Rightarrow> string list \<Rightarrow> string \<times> string list" where
  "sq_Eq col vals = (col, vals)"

definition sq_Where :: "string \<times> string list \<Rightarrow> select_query \<Rightarrow> select_query" where
  "sq_Where pred q = q\<lparr>sel_where := sel_where q @ [pred]\<rparr>"

definition sq_ToSql :: "select_query \<Rightarrow> string + select_query" where
  "sq_ToSql q =
     (if sel_columns q = [] then Inl ''select statements must have at least one result column''
      else Inr q)"

text \<open>
  Modelled from the spec: \<open>selectColumns\<close> is declared in a file of the repository that is
  not among the sources. Rows are scanned into \<open>ptype\<close> and \<open>v0..v5\<close>, in this order.
\<close>

definition selectColumns :: "string list" where
  "selectColumns = [''ptype'', ''v0'', ''v1'', ''v2'', ''v3'', ''v4'', ''v5'']"

subsection \<open>The server's side of a select\<close>

definition text_columns :: "string list" where
  "text_columns = [''ptype'', ''v0'', ''v1'', ''v2'', ''v3'', ''v4'', ''v5'']"

definition column_value :: "string \<Rightarrow> db_row \<Rightarrow> string option" where
  "column_value c r =
     (if c = ''ptype'' then row_ptype r
      else if c = ''v0'' then row_v0 r
      else if c = ''v1'' then row_v1 r
      else if c = ''v2'' then row_v2 r
      else if c = ''v3'' then row_v3 r
      else if c = ''v4'' then row_v4 r
      else if c = ''v5'' then row_v5 r
      else None)"

text \<open>
  \<open>column IN (values)\<close> holds for a row when the column is not NULL and equals one of the
  values; for an empty list the builder writes a predicate that is false.
\<close>

definition row_satisfies :: "db_row \<Rightarrow> string \<times> string list \<Rightarrow> bool" where
  "row_satisfies r pred =
     (case column_value (fst pred) r of
        None \<Rightarrow> False
      | Some v \<Rightarrow> v \<in> set (snd pred))"

text \<open>
  \<open>Query(ctx, sql, args...)\<close> on a handle: refused on a closed handle or a context that
  is done; otherwise the statement enters the history. It fails on an unknown column or
  ordering and on a name that is not a table, and else returns, for every row that
  satisfies all predicates, the values of the result columns, ordered as requested.
\<close>

definition pg_Query ::
  "context \<Rightarrow> handle \<Rightarrow> select_query \<Rightarrow> world \<Rightarrow> (string + string option list list) \<times> world" where
  "pg_Query ctx h q w =
     (if h \<in> set (closed w) then (Inl ''conn closed'', w)
      else
        (case ctx_Err ctx of
           Some e \<Rightarrow> (Inl e, w)
         | None \<Rightarrow>
             (let w1 = w\<lparr>history := history w @ [DbQuery q]\<rparr> in
              if \<not> list_all (\<lambda>c. c \<in> set text_columns) (sel_columns q @ map fst (sel_where q))
              then (Inl ''column does not exist'', w1)
              else if sel_order_by q \<noteq> [] \<and> sel_order_by q \<noteq> [''id'']
              then (Inl ''ordering not supported'', w1)
              else
                (case map_of (relations w1) (sel_from q) of
                   None \<Rightarrow> (Inl ''relation does not exist'', w1)
                 | Some (Index u t c) \<Rightarrow> (Inl ''cannot open relation'', w1)
                 | Some (Table b rows) \<Rightarrow>
                     (let hits = filter (\<lambda>r. list_all (row_satisfies r) (sel_where q)) rows;
                          ordered = (if sel_order_by q = [''id''] then sort_key row_id hits
                                     else hits)
                      in (Inr (map (\<lambda>r. map (\<lambda>c. column_value c r) (sel_columns q)) ordered),
                          w1))))))"

text \<open>
  \<open>rows.Scan(&ptypeVal, &v0, ..., &v5)\<close>: seven destinations; \<open>ptypeVal\<close> is a plain
  \<open>string\<close> and cannot take NULL, the others are \<open>sql.NullString\<close>.
\<close>

fun Scan :: "string option list \<Rightarrow>
    string + (string \<times> string option \<times> string option \<times> string option \<times>
              string option \<times> string option \<times> string option)" where
  "Scan [p, a, b, c, d, e, f] =
     (case p of
        None \<Rightarrow> Inl ''cannot scan NULL into *string''
      | Some ptypeVal \<Rightarrow> Inr (ptypeVal, a, b, c, d, e, f))"
| "Scan vals = Inl ''number of field descriptions must equal number of destinations''"

section \<open>Filtered loading\<close>

text \<open>
  The state a load works on: the adapter, the policy model it fills, and the world.
  The model is a collaborator: \<open>persist.LoadPolicyArray\<close> is a parameter \<open>lpa\<close>, which
  takes a line and the model and returns an error or the model with the line loaded.
\<close>

record 'm state =
  adapter :: PgxAdapter
  model :: 'm
  env :: world

type_synonym 'm loader = "string list \<Rightarrow> 'm \<Rightarrow> error option \<times> 'm"

text \<open>\<open>a.mu.Lock(); a.isFiltered = b; a.mu.Unlock()\<close>; the write enters the history.\<close>

definition set_isFiltered :: "bool \<Rightarrow> 'm state \<Rightarrow> 'm state" where
  "set_isFiltered b s =
     s\<lparr>adapter := (adapter s)\<lparr>isFiltered := b\<rparr>,
       env := (env s)\<lparr>history := history (env s) @ [SetIsFiltered b]\<rparr>\<rparr>"

definition build_query :: "PgxAdapter \<Rightarrow> Filter \<Rightarrow> select_query" where
  "build_query a filterValue =
     (let query = sq_OrderBy ''id'' (sq_From (tableName a) (sq_Select selectColumns));
          query = (if length (Ptype filterValue) > 0
                   then sq_Where (sq_Eq ''ptype'' (Ptype filterValue)) query else query);
          query = (if length (V0 filterValue) > 0
                   then sq_Where (sq_Eq ''v0'' (V0 filterValue)) query else query);
          query = (if length (V1 filterValue) > 0
                   then sq_Where (sq_Eq ''v1'' (V1 filterValue)) query else query);
          query = (if length (V2 filterValue) > 0
                   then sq_Where (sq_Eq ''v2'' (V2 filterValue)) query else query);
          query = (if length (V3 filterValue) > 0
                   then sq_Where (sq_Eq ''v3'' (V3 filterValue)) query else query);
          query = (if length (V4 filterValue) > 0
                   then sq_Where (sq_Eq ''v4'' (V4 filterValue)) query else query);
          query = (if length (V5 filterValue) > 0
                   then sq_Where (sq_Eq ''v5'' (V5 filterValue)) query else query)
      in query)"

text \<open>\<open>if v.Valid { line = append(line, v.String) }\<close>\<close>

definition append_valid :: "string option \<Rightarrow> string list \<Rightarrow> string list" where
  "append_valid v line = (case v of Some s \<Rightarrow> line @ [s] | None \<Rightarrow> line)"

definition policy_line ::
  "string \<Rightarrow> string option \<Rightarrow> string option \<Rightarrow> string option \<Rightarrow>
   string option \<Rightarrow> string option \<Rightarrow> string option \<Rightarrow> string list" where
  "policy_line ptypeVal v0 v1 v2 v3 v4 v5 =
     append_valid v5 (append_valid v4 (append_valid v3 (append_valid v2
       (append_valid v1 (append_valid v0 [ptypeVal])))))"

text \<open>The loop \<open>for rows.Next()\<close>: scan, build the line, load it; the first error ends it.\<close>

fun scan_rows :: "'m loader \<Rightarrow> string option list list \<Rightarrow> 'm \<Rightarrow> error option \<times> 'm" where
  "scan_rows lpa [] m = (None, m)"
| "scan_rows lpa (r # rs) m =
     (case Scan r of
        Inl e \<Rightarrow> (Some (Error (''failed to scan row: '' @ e)), m)
      | Inr (ptypeVal, v0, v1, v2, v3, v4, v5) \<Rightarrow>
          (case lpa (policy_line ptypeVal v0 v1 v2 v3 v4 v5) m of
             (Some err, m') \<Rightarrow> (Some err, m')
           | (None, m') \<Rightarrow> scan_rows lpa rs m'))"

text \<open>
  \<open>loadFilteredPolicies\<close>. The result set of the model is complete when \<open>Query\<close> returns,
  so \<open>rows.Err()\<close> after the loop is nil.
\<close>

definition loadFilteredPolicies ::
  "'m loader \<Rightarrow> context \<Rightarrow> Filter \<Rightarrow> 'm state \<Rightarrow> error option \<times> 'm state" where
  "loadFilteredPolicies lpa ctx filterValue s =
     (case sq_ToSql (build_query (adapter s) filterValue) of
        Inl e \<Rightarrow> (Some (Error (''failed to build query: '' @ e)), s)
      | Inr sqlQuery \<Rightarrow>
          (case db (adapter s) of
             None \<Rightarrow> (Some (Panic ''nil pointer dereference''), s)
           | Some h \<Rightarrow>
               (case pg_Query ctx h sqlQuery (env s) of
                  (Inl e, w') \<Rightarrow>
                    (Some (Error (''failed to query policies: '' @ e)), s\<lparr>env := w'\<rparr>)
                | (Inr rows, w') \<Rightarrow>
                    (case scan_rows lpa rows (model s) of
                       (err, m') \<Rightarrow> (err, s\<lparr>model := m', env := w'\<rparr>)))))"

text \<open>The type switch of \<open>LoadFilteredPolicyCtx\<close>.\<close>

fun type_switch :: "any \<Rightarrow> error + Filter list" where
  "type_switch (AFilter f) = Inr [f]"
| "type_switch (APtrFilter (Some f)) = Inr [f]"
| "type_switch (APtrFilter None) = Inl (Panic ''nil pointer dereference'')"
| "type_switch (ABatchFilter f) = Inr (Filters f)"
| "type_switch (APtrBatchFilter (Some f)) = Inr (Filters f)"
| "type_switch (APtrBatchFilter None) = Inl (Panic ''nil pointer dereference'')"
| "type_switch (AFilterSlice f) = Inr f"
| "type_switch ANil = Inl (Error ''invalid filter type'')"
| "type_switch (AOther t) = Inl (Error ''invalid filter type'')"

text \<open>\<open>for _, filterValue := range filters\<close>\<close>

fun load_each ::
  "'m loader \<Rightarrow> context \<Rightarrow> Filter list \<Rightarrow> 'm state \<Rightarrow> error option \<times> 'm state" where
  "load_each lpa ctx [] s = (None, s)"
| "load_each lpa ctx (filterValue # rest) s =
     (case loadFilteredPolicies lpa ctx filterValue s of
        (Some err, s') \<Rightarrow> (Some err, s')
      | (None, s') \<Rightarrow> load_each lpa ctx rest s')"

text \<open>
  \<open>LoadFilteredPolicyCtx\<close>. \<open>LoadPolicyCtx\<close> is a method of the adapter that is not among
  the sources; it is the parameter \<open>lp\<close>.
\<close>

definition LoadFilteredPolicyCtx ::
  "(context \<Rightarrow> 'm state \<Rightarrow> error option \<times> 'm state) \<Rightarrow> 'm loader \<Rightarrow>
   context \<Rightarrow> any \<Rightarrow> 'm state \<Rightarrow> error option \<times> 'm state" where
  "LoadFilteredPolicyCtx lp lpa ctx filter_arg s =
     (if filter_arg = ANil then lp ctx (set_isFiltered False s)
      else
        (case type_switch filter_arg of
           Inl err \<Rightarrow> (Some err, s)
         | Inr filters \<Rightarrow> load_each lpa ctx filters (set_isFiltered True s)))"

definition LoadFilteredPolicy ::
  "(context \<Rightarrow> 'm state \<Rightarrow> error option \<times> 'm state) \<Rightarrow> 'm loader \<Rightarrow>
   any \<Rightarrow> 'm state \<Rightarrow> error option \<times> 'm state" where
  "LoadFilteredPolicy lp lpa filter_arg s = LoadFilteredPolicyCtx lp lpa Background filter_arg s"

definition IsFilteredCtx :: "context \<Rightarrow> PgxAdapter \<Rightarrow> bool" where
  "IsFilteredCtx ctx a = isFiltered a"

definition IsFiltered :: "PgxAdapter \<Rightarrow> bool" where
  "IsFiltered a = IsFilteredCtx Background a"

text \<open>
  Modelled from the spec: \<open>LoadPolicyCtx\<close> (LoadAll) is not among the sources. It sets the
  is-filtered flag to false, selects all rows ordered by primary key ascending, maps each
  row to its policy line and feeds the lines to the model's line loader.
\<close>

definition LoadPolicyCtx :: "'m loader \<Rightarrow> context \<Rightarrow> 'm state \<Rightarrow> error option \<times> 'm state" where
  "LoadPolicyCtx lpa ctx s0 =
     (let s = set_isFiltered False s0;
          query = sq_OrderBy ''id'' (sq_From (tableName (adapter s)) (sq_Select selectColumns))
      in case db (adapter s) of
           None \<Rightarrow> (Some (Panic ''nil pointer dereference''), s)
         | Some h \<Rightarrow>
             (case pg_Query ctx h query (env s) of
                (Inl e, w') \<Rightarrow> (Some (Error (''failed to query policies: '' @ e)), s\<lparr>env := w'\<rparr>)
              | (Inr rows, w') \<Rightarrow>
                  (case scan_rows lpa rows (model s) of
                     (err, m') \<Rightarrow> (err, s\<lparr>model := m', env := w'\<rparr>))))"

section \<open>Notions of the specification\<close>

text \<open>
  The specification's notion of a match: an empty list on a column is no constraint, and
  a rule matches a filter iff every non-empty column list contains the rule's value in
  that column. A NULL is contained in no list.
\<close>

definition column_allows :: "string list \<Rightarrow> string option \<Rightarrow> bool" where
  "column_allows vs x = (vs \<noteq> [] \<longrightarrow> x \<in> set (map Some vs))"

definition rule_matches :: "Filter \<Rightarrow> db_row \<Rightarrow> bool" where
  "rule_matches f r =
     (column_allows (Ptype f) (row_ptype r) \<and> column_allows (V0 f) (row_v0 r) \<and>
      column_allows (V1 f) (row_v1 r) \<and> column_allows (V2 f) (row_v2 r) \<and>
      column_allows (V3 f) (row_v3 r) \<and> column_allows (V4 f) (row_v4 r) \<and>
      column_allows (V5 f) (row_v5 r))"

text \<open>The values of a row in the order of \<open>selectColumns\<close>.\<close>

definition row_values :: "db_row \<Rightarrow> string option list" where
  "row_values r = [row_ptype r, row_v0 r, row_v1 r, row_v2 r, row_v3 r, row_v4 r, row_v5 r]"

text \<open>The rows of a table that match a filter, ordered by primary key ascending.\<close>

definition selected_rows :: "Filter \<Rightarrow> db_row list \<Rightarrow> db_row list" where
  "selected_rows f rows = sort_key row_id (filter (rule_matches f) rows)"

text \<open>
  The adapter's table can be read: its handle is open, the context is not done, and the
  name of the adapter's table denotes a table with the given rows.
\<close>

definition readable :: "context \<Rightarrow> 'm state \<Rightarrow> db_row list \<Rightarrow> bool" where
  "readable ctx s rows =
     (case db (adapter s) of
        None \<Rightarrow> False
      | Some h \<Rightarrow> h \<notin> set (closed (env s)) \<and> ctx_Err ctx = None \<and>
          (case map_of (relations (env s)) (tableName (adapter s)) of
             Some (Table b rs) \<Rightarrow> rs = rows
           | _ \<Rightarrow> False))"

text \<open>The state after the given select statements have entered the history.\<close>

definition logged :: "select_query list \<Rightarrow> 'm state \<Rightarrow> 'm state" where
  "logged qs s = s\<lparr>env := (env s)\<lparr>history := history (env s) @ map DbQuery qs\<rparr>\<rparr>"

text \<open>A policy model that keeps the lines it is given, in the order of their arrival.\<close>

definition record_line :: "string list list loader" where
  "record_line line m = (None, m @ [line])"



section \<open>Example data\<close>

text \<open>
  A table with two policy rules and one role rule, stored out of key order, an adapter on
  an open connection, three filters, and a policy model that knows section \<open>p\<close> only.
\<close>

definition alice_row :: db_row where
  "alice_row = \<lparr>row_id = 1, row_ptype = Some ''p'', row_v0 = Some ''alice'', row_v1 = Some ''data1'',
     row_v2 = Some ''read'', row_v3 = None, row_v4 = None, row_v5 = None\<rparr>"

definition bob_row :: db_row where
  "bob_row = \<lparr>row_id = 2, row_ptype = Some ''p'', row_v0 = Some ''bob'', row_v1 = Some ''data1'',
     row_v2 = Some ''write'', row_v3 = None, row_v4 = None, row_v5 = None\<rparr>"

definition role_row :: db_row where
  "role_row = \<lparr>row_id = 3, row_ptype = Some ''g'', row_v0 = Some ''alice'', row_v1 = Some ''admin'',
     row_v2 = None, row_v3 = None, row_v4 = None, row_v5 = None\<rparr>"

definition ex_rows :: "db_row list" where
  "ex_rows = [bob_row, role_row, alice_row]"

definition ex_world :: world where
  "ex_world = \<lparr>relations = [(''casbin_rule'', Table [] ex_rows)], opened = 1, closed = [],
     connect_fault = (\<lambda>c. None), ping_fault = None, history = []\<rparr>"

definition ex_adapter :: PgxAdapter where
  "ex_adapter = \<lparr>db = Some (Conn 0), conn = Some 0, pool = None, tableName = ''casbin_rule'',
     database = ''casbin'', isFiltered = False, indexes = [], usePool = False\<rparr>"

definition ex_state :: "string list list state" where
  "ex_state = \<lparr>adapter = ex_adapter, model = [], env = ex_world\<rparr>"

definition filter_none :: Filter where
  "filter_none = \<lparr>Ptype = [], V0 = [], V1 = [], V2 = [], V3 = [], V4 = [], V5 = []\<rparr>"

definition alice_filter :: Filter where
  "alice_filter = filter_none\<lparr>Ptype := [''p''], V0 := [''alice'']\<rparr>"

definition data1_filter :: Filter where
  "data1_filter = filter_none\<lparr>V1 := [''data1'']\<rparr>"

definition role_filter :: Filter where
  "role_filter = filter_none\<lparr>Ptype := [''g'']\<rparr>"

definition p_only_line :: "string list list loader" where
  "p_only_line line m =
     (if take 1 line = [''p''] then (None, m @ [line])
      else (Some (Error ''section does not exist in the model''), m))"

definition ex_batch :: any where
  "ex_batch = ABatchFilter \<lparr>Filters = [alice_filter, role_filter, data1_filter]\<rparr>"



text \<open>
  An empty database that accepts connections, and an adapter configuration with the table
  \<open>t1\<close> and two secondary indexes, together with the catalogue its bootstrap produces.
\<close>

definition fresh_world :: world where
  "fresh_world = \<lparr>relations = [], opened = 0, closed = [], connect_fault = (\<lambda>c. None),
     ping_fault = None, history = []\<rparr>"




text \<open>A server that refuses connections, and one that accepts them but fails the liveness probe.\<close>

definition down_world :: world where
  "down_world = fresh_world\<lparr>connect_fault := (\<lambda>c. Some ''connection refused'')\<rparr>"

definition stalled_world :: world where
  "stalled_world = fresh_world\<lparr>ping_fault := Some ''timeout''\<rparr>"

section \<open>Properties of the select statement and of the loading loop\<close>

lemma sel_where_step:
  "sel_where (if c then sq_Where p q else q) = sel_where q @ (if c then [p] else [])"
  by (simp add: sq_Where_def)

lemma other_step:
  "sel_columns (if c then sq_Where p q else q) = sel_columns q"
  "sel_from (if c then sq_Where p q else q) = sel_from q"
  "sel_order_by (if c then sq_Where p q else q) = sel_order_by q"
  by (simp_all add: sq_Where_def)

lemma build_query_where:
  "sel_where (build_query a f) =
     (if Ptype f \<noteq> [] then [(''ptype'', Ptype f)] else []) @
     (if V0 f \<noteq> [] then [(''v0'', V0 f)] else []) @
     (if V1 f \<noteq> [] then [(''v1'', V1 f)] else []) @
     (if V2 f \<noteq> [] then [(''v2'', V2 f)] else []) @
     (if V3 f \<noteq> [] then [(''v3'', V3 f)] else []) @
     (if V4 f \<noteq> [] then [(''v4'', V4 f)] else []) @
     (if V5 f \<noteq> [] then [(''v5'', V5 f)] else [])"
  unfolding build_query_def Let_def
  by (simp only: sel_where_step) (simp add: sq_OrderBy_def sq_From_def sq_Select_def sq_Eq_def)

lemma build_query_rest:
  "sel_columns (build_query a f) = selectColumns"
  "sel_from (build_query a f) = tableName a"
  "sel_order_by (build_query a f) = [''id'']"
  unfolding build_query_def Let_def
  by (simp_all only: other_step) (simp_all add: sq_OrderBy_def sq_From_def sq_Select_def)

lemma row_satisfies_cols:
  "row_satisfies r (''ptype'', vs) = (row_ptype r \<in> set (map Some vs))"
  "row_satisfies r (''v0'', vs) = (row_v0 r \<in> set (map Some vs))"
  "row_satisfies r (''v1'', vs) = (row_v1 r \<in> set (map Some vs))"
  "row_satisfies r (''v2'', vs) = (row_v2 r \<in> set (map Some vs))"
  "row_satisfies r (''v3'', vs) = (row_v3 r \<in> set (map Some vs))"
  "row_satisfies r (''v4'', vs) = (row_v4 r \<in> set (map Some vs))"
  "row_satisfies r (''v5'', vs) = (row_v5 r \<in> set (map Some vs))"
  by (auto simp: row_satisfies_def column_value_def split: option.splits)

lemma where_is_match:
  "list_all (row_satisfies r) (sel_where (build_query a f)) = rule_matches f r"
  by (simp add: build_query_where rule_matches_def column_allows_def row_satisfies_cols
        del: set_map)

lemma columns_known:
  "list_all (\<lambda>c. c \<in> set text_columns) (selectColumns @ map fst (sel_where (build_query a f)))"
  by (simp add: build_query_where selectColumns_def text_columns_def)

lemma project_select: "map (\<lambda>c. column_value c r) selectColumns = row_values r"
  by (simp add: selectColumns_def row_values_def column_value_def)

lemma pg_Query_build:
  assumes "h \<notin> set (closed w)" "ctx_Err ctx = None"
      and "map_of (relations w) (tableName a) = Some (Table b rows)"
  shows "pg_Query ctx h (build_query a f) w =
           (Inr (map row_values (selected_rows f rows)), w\<lparr>history := history w @ [DbQuery (build_query a f)]\<rparr>)"
  using assms
  by (simp add: pg_Query_def Let_def columns_known build_query_rest where_is_match
        project_select selected_rows_def del: list_all_append)

lemma sq_ToSql_build: "sq_ToSql (build_query a f) = Inr (build_query a f)"
  by (simp add: sq_ToSql_def build_query_rest selectColumns_def)

lemma readable_logged [simp]: "readable ctx (logged qs s) rows = readable ctx s rows"
  by (simp add: readable_def logged_def split: option.splits relation.splits)

lemma readable_model [simp]: "readable ctx (s\<lparr>model := m\<rparr>) rows = readable ctx s rows"
  by (simp add: readable_def split: option.splits relation.splits)

lemma loadFilteredPolicies_readable:
  assumes "readable ctx s rows"
  shows "loadFilteredPolicies lpa ctx f s =
           (fst (scan_rows lpa (map row_values (selected_rows f rows)) (model s)),
            logged [build_query (adapter s) f]
              (s\<lparr>model := snd (scan_rows lpa (map row_values (selected_rows f rows)) (model s))\<rparr>))"
proof -
  from assms obtain h b where h: "db (adapter s) = Some h" "h \<notin> set (closed (env s))"
    "ctx_Err ctx = None" "map_of (relations (env s)) (tableName (adapter s)) = Some (Table b rows)"
    by (auto simp: readable_def split: option.splits relation.splits)
  show ?thesis
    by (simp add: loadFilteredPolicies_def sq_ToSql_build h pg_Query_build [OF h(2,3,4)]
          logged_def split: prod.splits)
qed

lemma scan_rows_append:
  "scan_rows lpa (xs @ ys) m =
     (case scan_rows lpa xs m of
        (Some err, m') \<Rightarrow> (Some err, m')
      | (None, m') \<Rightarrow> scan_rows lpa ys m')"
  by (induction xs arbitrary: m) (auto split: sum.splits prod.splits option.splits)

lemma logged_fields [simp]:
  "adapter (logged qs s) = adapter s" "model (logged qs s) = model s"
  by (simp_all add: logged_def)

lemma load_each_readable:
  assumes "readable ctx s rows"
  shows "fst (load_each lpa ctx fs s) =
           fst (scan_rows lpa (concat (map (\<lambda>f. map row_values (selected_rows f rows)) fs)) (model s)) \<and>
         model (snd (load_each lpa ctx fs s)) =
           snd (scan_rows lpa (concat (map (\<lambda>f. map row_values (selected_rows f rows)) fs)) (model s))"
  using assms
proof (induction fs arbitrary: s)
  case Nil
  then show ?case by simp
next
  case (Cons f fs)
  obtain e1 m1 where one: "scan_rows lpa (map row_values (selected_rows f rows)) (model s) = (e1, m1)"
    by (cases "scan_rows lpa (map row_values (selected_rows f rows)) (model s)")
  let ?s' = "logged [build_query (adapter s) f] (s\<lparr>model := m1\<rparr>)"
  have step: "loadFilteredPolicies lpa ctx f s = (e1, ?s')"
    using loadFilteredPolicies_readable [OF Cons.prems, of lpa f] by (simp add: one)
  show ?case
  proof (cases e1)
    case None
    have r: "readable ctx ?s' rows" using Cons.prems by simp
    from Cons.IH [OF r] None show ?thesis
      by (simp add: step scan_rows_append one)
  next
    case (Some e)
    then show ?thesis
      by (simp add: step scan_rows_append one)
  qed
qed

lemma loadFilteredPolicies_trace:
  assumes "loadFilteredPolicies lpa ctx f s = (err, s')"
  shows "adapter s' = adapter s \<and>
         (history (env s') = history (env s) \<and> err \<noteq> None \<or>
          history (env s') = history (env s) @ [DbQuery (build_query (adapter s) f)])"
proof (cases "db (adapter s)")
  case None
  with assms show ?thesis
    by (auto simp: loadFilteredPolicies_def sq_ToSql_build)
next
  case (Some h)
  obtain r w' where q: "pg_Query ctx h (build_query (adapter s) f) (env s) = (r, w')"
    by (cases "pg_Query ctx h (build_query (adapter s) f) (env s)")
  have w': "w' = env s \<and> r = Inl (projl r) \<and> (\<exists>e. r = Inl e) \<or> w' = (env s)\<lparr>history := history (env s) @ [DbQuery (build_query (adapter s) f)]\<rparr>"
    using q by (auto simp: pg_Query_def Let_def split: if_splits option.splits relation.splits)
  with assms Some q show ?thesis
    by (auto simp: loadFilteredPolicies_def sq_ToSql_build split: sum.splits prod.splits)
qed

lemma load_each_trace:
  "load_each lpa ctx fs s = (err, s') \<Longrightarrow>
   adapter s' = adapter s \<and>
   (\<exists>n\<le>length fs. history (env s') =
        history (env s) @ map (\<lambda>f. DbQuery (build_query (adapter s) f)) (take n fs) \<and>
      (err = None \<longrightarrow> n = length fs))"
proof (induction fs arbitrary: s)
  case Nil
  then show ?case by simp
next
  case (Cons f fs)
  obtain e1 s1 where one: "loadFilteredPolicies lpa ctx f s = (e1, s1)"
    by (cases "loadFilteredPolicies lpa ctx f s")
  note t = loadFilteredPolicies_trace [OF one]
  show ?case
  proof (cases e1)
    case None
    with Cons.prems one have rest: "load_each lpa ctx fs s1 = (err, s')" by simp
    from Cons.IH [OF rest] obtain n where n: "adapter s' = adapter s1" "n \<le> length fs"
      "history (env s') = history (env s1) @ map (\<lambda>f. DbQuery (build_query (adapter s1) f)) (take n fs)"
      "err = None \<longrightarrow> n = length fs" by blast
    from t None have h1: "adapter s1 = adapter s"
      "history (env s1) = history (env s) @ [DbQuery (build_query (adapter s) f)]" by auto
    show ?thesis
      using n h1 by (intro conjI exI [of _ "Suc n"]) simp_all
  next
    case (Some e)
    with Cons.prems one have "err = Some e" "s' = s1" by simp_all
    with t show ?thesis
      by (elim conjE disjE) (intro conjI exI [of _ 0], simp_all, intro conjI exI [of _ 1], simp_all)
  qed
qed

section \<open>Theorems on filtered loading\<close>

lemma ex_readable: "readable Background ex_state ex_rows"
  by (simp add: readable_def ex_state_def ex_adapter_def ex_world_def)

lemma sel_alice: "selected_rows alice_filter ex_rows = [alice_row]"
  by (simp add: selected_rows_def rule_matches_def column_allows_def ex_rows_def alice_filter_def
      filter_none_def alice_row_def bob_row_def role_row_def)

lemma sel_data1: "selected_rows data1_filter ex_rows = [alice_row, bob_row]"
  by (simp add: selected_rows_def rule_matches_def column_allows_def ex_rows_def data1_filter_def
      filter_none_def alice_row_def bob_row_def role_row_def)

lemma sel_role: "selected_rows role_filter ex_rows = [role_row]"
  by (simp add: selected_rows_def rule_matches_def column_allows_def ex_rows_def role_filter_def
      filter_none_def alice_row_def bob_row_def role_row_def)

text \<open>
  C1: when the adapter's table can be read, a filtered load for one filter feeds the model
  the rows \<open>selected_rows f rows\<close>, in this order, and logs one select statement. These
  are exactly the rows that match the filter, where a rule matches iff every non-empty
  column list of the filter contains the rule's value in that column and an empty list
  imposes no constraint, and they are ordered by primary key ascending.
\<close>

theorem filtered_load_selects_matching_rows:
  assumes "readable ctx s rows"
  shows "loadFilteredPolicies lpa ctx f s =
           (fst (scan_rows lpa (map row_values (selected_rows f rows)) (model s)),
            logged [build_query (adapter s) f]
              (s\<lparr>model := snd (scan_rows lpa (map row_values (selected_rows f rows)) (model s))\<rparr>)) \<and>
         set (selected_rows f rows) = {r \<in> set rows. rule_matches f r} \<and>
         length (selected_rows f rows) = length (filter (rule_matches f) rows) \<and>
         sorted (map row_id (selected_rows f rows))"
  using loadFilteredPolicies_readable [OF assms, of lpa f]
  by (simp add: selected_rows_def)

theorem filtered_load_selects_matching_rows_witness:
  "readable Background ex_state ex_rows \<and>
   fst (loadFilteredPolicies record_line Background alice_filter ex_state) = None \<and>
   model (snd (loadFilteredPolicies record_line Background alice_filter ex_state)) =
     [[''p'', ''alice'', ''data1'', ''read'']]"
proof -
  have h: "readable Background ex_state ex_rows" by (rule ex_readable)
  have "scan_rows record_line (map row_values [alice_row]) [] = (None, [[''p'', ''alice'', ''data1'', ''read'']])"
    by (simp add: row_values_def alice_row_def record_line_def policy_line_def append_valid_def)
  with filtered_load_selects_matching_rows [OF h, of record_line alice_filter] h
  show ?thesis by (simp add: sel_alice ex_state_def)
qed

lemma build_query_flag: "build_query (a\<lparr>isFiltered := b\<rparr>) f = build_query a f"
  by (simp add: build_query_def)

lemma set_isFiltered_fields:
  "adapter (set_isFiltered b s) = (adapter s)\<lparr>isFiltered := b\<rparr>"
  "model (set_isFiltered b s) = model s"
  "history (env (set_isFiltered b s)) = history (env s) @ [SetIsFiltered b]"
  by (simp_all add: set_isFiltered_def)

lemma readable_set_isFiltered: "readable ctx (set_isFiltered b s) rows = readable ctx s rows"
  by (simp add: readable_def set_isFiltered_def split: option.splits relation.splits)

text \<open>
  C3: for a BatchFilter (passed by value, by pointer, or as the plain list of its filters),
  when the adapter's table can be read, the loader is fed, for each contained filter in
  order, the rows which that filter selects: the input of the loading loop is the
  concatenation of the per-filter results. No row is omitted and none is removed, so a row
  matched by several filters is fed once for each of them.
\<close>

theorem batch_filter_loads_union:
  assumes "readable ctx s rows"
      and "filter_arg = ABatchFilter bf \<or> filter_arg = APtrBatchFilter (Some bf) \<or>
           filter_arg = AFilterSlice (Filters bf)"
  shows "fst (LoadFilteredPolicyCtx lp lpa ctx filter_arg s) =
           fst (scan_rows lpa
                  (concat (map (\<lambda>f. map row_values (selected_rows f rows)) (Filters bf))) (model s)) \<and>
         model (snd (LoadFilteredPolicyCtx lp lpa ctx filter_arg s)) =
           snd (scan_rows lpa
                  (concat (map (\<lambda>f. map row_values (selected_rows f rows)) (Filters bf))) (model s))"
proof -
  have r: "readable ctx (set_isFiltered True s) rows"
    using assms(1) by (simp add: readable_set_isFiltered)
  have "LoadFilteredPolicyCtx lp lpa ctx filter_arg s =
          load_each lpa ctx (Filters bf) (set_isFiltered True s)"
    using assms(2) by (auto simp: LoadFilteredPolicyCtx_def)
  with load_each_readable [OF r, of lpa "Filters bf"] show ?thesis
    by (simp add: set_isFiltered_fields)
qed

theorem batch_filter_loads_union_witness:
  "readable Background ex_state ex_rows \<and>
   fst (LoadFilteredPolicyCtx (LoadPolicyCtx record_line) record_line Background
          (ABatchFilter \<lparr>Filters = [alice_filter, role_filter, data1_filter]\<rparr>) ex_state) = None \<and>
   model (snd (LoadFilteredPolicyCtx (LoadPolicyCtx record_line) record_line Background
          (ABatchFilter \<lparr>Filters = [alice_filter, role_filter, data1_filter]\<rparr>) ex_state)) =
     [[''p'', ''alice'', ''data1'', ''read''], [''g'', ''alice'', ''admin''],
      [''p'', ''alice'', ''data1'', ''read''], [''p'', ''bob'', ''data1'', ''write'']]"
proof -
  have h: "readable Background ex_state ex_rows" by (rule ex_readable)
  have lines: "scan_rows record_line
       (map row_values [alice_row] @ map row_values [role_row] @ map row_values [alice_row, bob_row]) [] =
     (None, [[''p'', ''alice'', ''data1'', ''read''], [''g'', ''alice'', ''admin''],
      [''p'', ''alice'', ''data1'', ''read''], [''p'', ''bob'', ''data1'', ''write'']])"
    by (simp add: row_values_def alice_row_def bob_row_def role_row_def record_line_def
        policy_line_def append_valid_def)
  from batch_filter_loads_union [OF h, of "ABatchFilter \<lparr>Filters = [alice_filter, role_filter, data1_filter]\<rparr>"
      "\<lparr>Filters = [alice_filter, role_filter, data1_filter]\<rparr>" "LoadPolicyCtx record_line" record_line]
  show ?thesis using h lines
    by (simp add: sel_alice sel_role sel_data1 ex_state_def)
qed

text \<open>
  C5: for every filter argument that the type switch accepts, the write of true to the
  is-filtered flag is the first event of the load and precedes every select statement;
  the statements that follow are those of the first \<open>n\<close> filters, all of them when the load
  returns no error; and \<open>IsFiltered\<close> and \<open>IsFilteredCtx\<close> return true afterwards, whether the
  load succeeded or a filter of the batch failed.
\<close>

theorem flag_set_before_queries:
  assumes "type_switch filter_arg = Inr filters"
  shows "\<exists>n\<le>length filters.
           history (env (snd (LoadFilteredPolicyCtx lp lpa ctx filter_arg s))) =
             history (env s) @ SetIsFiltered True #
               map (\<lambda>f. DbQuery (build_query (adapter s) f)) (take n filters) \<and>
           (fst (LoadFilteredPolicyCtx lp lpa ctx filter_arg s) = None \<longrightarrow> n = length filters) \<and>
           IsFiltered (adapter (snd (LoadFilteredPolicyCtx lp lpa ctx filter_arg s))) \<and>
           IsFilteredCtx ctx' (adapter (snd (LoadFilteredPolicyCtx lp lpa ctx filter_arg s)))"
proof -
  have nn: "filter_arg \<noteq> ANil" using assms by auto
  obtain err s' where run: "load_each lpa ctx filters (set_isFiltered True s) = (err, s')"
    by (cases "load_each lpa ctx filters (set_isFiltered True s)")
  have eq: "LoadFilteredPolicyCtx lp lpa ctx filter_arg s = (err, s')"
    using nn assms run by (simp add: LoadFilteredPolicyCtx_def)
  from load_each_trace [OF run] obtain n where n: "adapter s' = adapter (set_isFiltered True s)"
    "n \<le> length filters"
    "history (env s') = history (env (set_isFiltered True s)) @
       map (\<lambda>f. DbQuery (build_query (adapter (set_isFiltered True s)) f)) (take n filters)"
    "err = None \<longrightarrow> n = length filters" by blast
  show ?thesis
    using n by (intro exI [of _ n])
      (simp add: eq set_isFiltered_fields build_query_flag IsFiltered_def IsFilteredCtx_def)
qed


text \<open>A batch whose second filter selects a role rule, loaded into a model without section \<open>g\<close>.\<close>

theorem flag_set_before_queries_witness:
  "type_switch ex_batch = Inr [alice_filter, role_filter, data1_filter] \<and>
   fst (LoadFilteredPolicyCtx (LoadPolicyCtx p_only_line) p_only_line Background ex_batch ex_state) =
     Some (Error ''section does not exist in the model'') \<and>
   IsFiltered (adapter (snd (LoadFilteredPolicyCtx (LoadPolicyCtx p_only_line) p_only_line
     Background ex_batch ex_state))) \<and>
   hd (history (env (snd (LoadFilteredPolicyCtx (LoadPolicyCtx p_only_line) p_only_line
     Background ex_batch ex_state)))) = SetIsFiltered True"
proof -
  have t: "type_switch ex_batch = Inr [alice_filter, role_filter, data1_filter]"
    by (simp add: ex_batch_def)
  have r: "readable Background (set_isFiltered True ex_state) ex_rows"
    by (simp add: readable_set_isFiltered ex_readable)
  have run: "LoadFilteredPolicyCtx (LoadPolicyCtx p_only_line) p_only_line Background ex_batch ex_state =
      load_each p_only_line Background [alice_filter, role_filter, data1_filter]
        (set_isFiltered True ex_state)"
    by (simp add: LoadFilteredPolicyCtx_def ex_batch_def)
  have e: "fst (LoadFilteredPolicyCtx (LoadPolicyCtx p_only_line) p_only_line Background ex_batch ex_state) =
      Some (Error ''section does not exist in the model'')"
    unfolding run
    using load_each_readable [OF r, of p_only_line "[alice_filter, role_filter, data1_filter]"]
    by (simp add: sel_alice sel_role sel_data1 set_isFiltered_fields ex_state_def
        row_values_def alice_row_def bob_row_def role_row_def p_only_line_def
        policy_line_def append_valid_def del: load_each.simps)
  have hist: "history (env ex_state) = []"
    by (simp add: ex_state_def ex_world_def)
  from flag_set_before_queries [OF t, of "LoadPolicyCtx p_only_line" p_only_line Background ex_state Live]
  show ?thesis using t e by (auto simp: hist)
qed

lemma load_each_history_grows:
  "load_each lpa ctx fs s = (err, s') \<Longrightarrow> length (history (env s)) \<le> length (history (env s'))"
  using load_each_trace [of lpa ctx fs s err s'] by auto

text \<open>
  C4: for a non-nil argument, \<open>LoadFilteredPolicyCtx\<close> and \<open>LoadFilteredPolicy\<close> return the
  error \<open>invalid filter type\<close> with the whole state unchanged (adapter and its flag, model,
  world and its history, hence no statement sent) exactly when the dynamic type of the
  argument is none of \<open>Filter\<close>, \<open>*Filter\<close>, \<open>BatchFilter\<close>, \<open>*BatchFilter\<close> and \<open>[]Filter\<close>.
\<close>

theorem invalid_filter_type_rejected:
  assumes "filter_arg \<noteq> ANil"
  shows "(LoadFilteredPolicyCtx lp lpa ctx filter_arg s = (Some (Error ''invalid filter type''), s)) =
           (\<exists>t. filter_arg = AOther t) \<and>
         (LoadFilteredPolicy lp lpa filter_arg s = (Some (Error ''invalid filter type''), s)) =
           (\<exists>t. filter_arg = AOther t)"
proof -
  have accepted: "load_each lpa c fs (set_isFiltered True s) \<noteq> (e, s)" for c fs e
  proof
    assume "load_each lpa c fs (set_isFiltered True s) = (e, s)"
    from load_each_history_grows [OF this] show False
      by (simp add: set_isFiltered_fields)
  qed
  have "(LoadFilteredPolicyCtx lp lpa c filter_arg s = (Some (Error ''invalid filter type''), s)) =
           (\<exists>t. filter_arg = AOther t)" for c
    using assms accepted
    by (cases filter_arg rule: type_switch.cases)
      (auto simp add: LoadFilteredPolicyCtx_def simp del: load_each.simps)
  then show ?thesis by (simp add: LoadFilteredPolicy_def)
qed

theorem invalid_filter_type_rejected_witness:
  "AOther ''string'' \<noteq> ANil \<and>
   LoadFilteredPolicyCtx (LoadPolicyCtx record_line) record_line Live (AOther ''string'') ex_state =
     (Some (Error ''invalid filter type''), ex_state) \<and>
   AFilter alice_filter \<noteq> ANil \<and>
   LoadFilteredPolicyCtx (LoadPolicyCtx record_line) record_line Live (AFilter alice_filter) ex_state \<noteq>
     (Some (Error ''invalid filter type''), ex_state)"
  using invalid_filter_type_rejected [of "AOther ''string''" "LoadPolicyCtx record_line" record_line Live ex_state]
    invalid_filter_type_rejected [of "AFilter alice_filter" "LoadPolicyCtx record_line" record_line Live ex_state]
  by simp

text \<open>
  C6: with a nil filter, \<open>LoadFilteredPolicyCtx\<close> writes false to the is-filtered flag and
  returns what \<open>LoadPolicyCtx\<close> returns on the resulting state, for every implementation
  \<open>lp\<close> of \<open>LoadPolicyCtx\<close>; with the full load of the specification the flag is false
  afterwards.
\<close>

theorem nil_filter_loads_all:
  "LoadFilteredPolicyCtx lp lpa ctx ANil s = lp ctx (set_isFiltered False s) \<and>
   LoadFilteredPolicy lp lpa ANil s = lp Background (set_isFiltered False s) \<and>
   \<not> isFiltered (adapter (set_isFiltered False s)) \<and>
   \<not> IsFiltered (adapter (snd (LoadFilteredPolicyCtx (LoadPolicyCtx lpa) lpa ctx ANil s)))"
  by (auto simp: LoadFilteredPolicyCtx_def LoadFilteredPolicy_def set_isFiltered_def LoadPolicyCtx_def
      Let_def IsFiltered_def IsFilteredCtx_def split: option.splits sum.splits prod.splits)

theorem nil_filter_loads_all_witness:
  "LoadFilteredPolicyCtx (LoadPolicyCtx record_line) record_line Background ANil
     (ex_state\<lparr>adapter := ex_adapter\<lparr>isFiltered := True\<rparr>\<rparr>) =
     LoadPolicyCtx record_line Background
       (set_isFiltered False (ex_state\<lparr>adapter := ex_adapter\<lparr>isFiltered := True\<rparr>\<rparr>)) \<and>
   \<not> IsFiltered (adapter (snd (LoadFilteredPolicyCtx (LoadPolicyCtx record_line) record_line
       Background ANil (ex_state\<lparr>adapter := ex_adapter\<lparr>isFiltered := True\<rparr>\<rparr>))))"
  using nil_filter_loads_all [of "LoadPolicyCtx record_line" record_line Background
      "ex_state\<lparr>adapter := ex_adapter\<lparr>isFiltered := True\<rparr>\<rparr>"]
  by blast

text \<open>
  C10: \<open>LoadFilteredPolicy\<close> is \<open>LoadFilteredPolicyCtx\<close> on the background context, with the
  same result and the same state; \<open>IsFiltered\<close> is \<open>IsFilteredCtx\<close> on the background context,
  and \<open>IsFilteredCtx\<close> does not depend on its context.
\<close>

theorem nonctx_variants_use_background:
  "LoadFilteredPolicy lp lpa filter_arg s = LoadFilteredPolicyCtx lp lpa Background filter_arg s \<and>
   IsFiltered a = IsFilteredCtx Background a \<and>
   IsFilteredCtx ctx a = isFiltered a"
  by (simp add: LoadFilteredPolicy_def IsFiltered_def IsFilteredCtx_def)






section \<open>Properties of quoting and of the bootstrap\<close>

lemma strip_prefix_append: "strip_prefix p (p @ s) = Some s"
  by (induction p) simp_all

lemma read_body_other: "c \<noteq> dquote \<Longrightarrow> read_body (c # xs) = map_option (\<lambda>(n, r). (c # n, r)) (read_body xs)"
  by (cases xs) simp_all

lemma read_body_doubled: "read_body (dquote # dquote # xs) = map_option (\<lambda>(n, r). (dquote # n, r)) (read_body xs)"
  by simp

lemma read_body_end: "rest = [] \<or> hd rest \<noteq> dquote \<Longrightarrow> read_body (dquote # rest) = Some ([], rest)"
  by (cases rest) auto

lemma read_body_quoted:
  "rest = [] \<or> hd rest \<noteq> dquote \<Longrightarrow> read_body (double_quotes s @ dquote # rest) = Some (s, rest)"
  by (induction s) (simp_all add: read_body_other read_body_end read_body_doubled del: read_body.simps)

lemma read_ident_Sanitize:
  "rest = [] \<or> hd rest \<noteq> dquote \<Longrightarrow> read_ident (Sanitize [s] @ rest) = Some (strip_nul s, rest)"
  by (simp add: Sanitize_def quote_part_def read_body_quoted del: read_body.simps)

lemma read_stmt_createTable:
  "read_stmt (createTableSQL a) = Some (CreateTable (strip_nul (tableName a)) tableColumnsSQL)"
proof -
  have "hd tableColumnsSQL \<noteq> dquote" by (simp add: tableColumnsSQL_def dquote_def)
  then have "read_ident (Sanitize [tableName a] @ tableColumnsSQL) = Some (strip_nul (tableName a), tableColumnsSQL)"
    by (intro read_ident_Sanitize) simp
  then show ?thesis
    unfolding read_stmt_def createTableSQL_def
    by (simp only: strip_prefix_append option.case prod.case)
qed






























section \<open>Theorems on construction\<close>

lemma NewAdapterWithConn_cases:
  "NewAdapterWithConn c opts w = ((a, e), w') \<Longrightarrow> (e \<noteq> None \<longrightarrow> a = None) \<and> (e = None \<longrightarrow> a \<noteq> None)"
  by (auto simp: NewAdapterWithConn_def Let_def split: prod.splits option.splits)

lemma NewAdapterWithPool_cases:
  "NewAdapterWithPool p opts w = ((a, e), w') \<Longrightarrow> (e \<noteq> None \<longrightarrow> a = None) \<and> (e = None \<longrightarrow> a \<noteq> None)"
  by (auto simp: NewAdapterWithPool_def Let_def split: prod.splits option.splits)

lemma NewAdapter_cases:
  "NewAdapter connStr opts w = ((a, e), w') \<Longrightarrow> (e \<noteq> None \<longrightarrow> a = None) \<and> (e = None \<longrightarrow> a \<noteq> None)"
  by (auto simp: NewAdapter_def Let_def pgx_Connect_def pgxpool_New_def
      dest: NewAdapterWithConn_cases NewAdapterWithPool_cases
      split: prod.splits option.splits sum.splits if_splits)

text \<open>
  C8: construction is all-or-nothing. Whenever one of the three constructors returns an
  error, the adapter it returns is nil. On the connection-string path, a failed connection
  attempt yields \<open>failed to create connection\<close> (or \<open>connection pool\<close>) with its cause and
  opens nothing; a failed liveness probe yields \<open>failed to ping database\<close> with its cause
  and the handle just opened is closed; when both succeed the constructor for the opened
  handle decides. Any failure of the bootstrap makes the constructor return the error
  \<open>failed to create table\<close> wrapping the failure, and no adapter.
\<close>

theorem construction_all_or_nothing:
  "(snd (fst (NewAdapter connStr opts w)) \<noteq> None \<longrightarrow> fst (fst (NewAdapter connStr opts w)) = None) \<and>
   (snd (fst (NewAdapterWithConn c opts w)) \<noteq> None \<longrightarrow>
      fst (fst (NewAdapterWithConn c opts w)) = None) \<and>
   (snd (fst (NewAdapterWithPool p opts w)) \<noteq> None \<longrightarrow>
      fst (fst (NewAdapterWithPool p opts w)) = None) \<and>
   (connect_fault w connStr = Some e \<longrightarrow>
      NewAdapter connStr opts w =
        ((None, Some (Error ((if usePool (apply_opts opts zero_PgxAdapter)
                              then ''failed to create connection pool: ''
                              else ''failed to create connection: '') @ e))), w)) \<and>
   (connect_fault w connStr = None \<and>
    h = (if usePool (apply_opts opts zero_PgxAdapter) then Pool (opened w) else Conn (opened w)) \<and>
    pg_Ping h (w\<lparr>opened := Suc (opened w)\<rparr>) = Some e \<longrightarrow>
      NewAdapter connStr opts w =
        ((None, Some (Error (''failed to ping database: '' @ e))),
         w\<lparr>opened := Suc (opened w), closed := closed w @ [h]\<rparr>)) \<and>
   (fst (createTable (apply_opts opts
           \<lparr>db = map_option Conn c, conn = c, pool = None, tableName = defaultTableName,
            database = defaultDatabase, isFiltered = False, indexes = [], usePool = False\<rparr>) w) =
      Some err \<longrightarrow>
      fst (NewAdapterWithConn c opts w) = (None, Some (wrap ''failed to create table: '' err))) \<and>
   (fst (createTable (apply_opts opts
           \<lparr>db = map_option Pool p, conn = None, pool = p, tableName = defaultTableName,
            database = defaultDatabase, isFiltered = False, indexes = [], usePool = False\<rparr>) w) =
      Some err \<longrightarrow>
      fst (NewAdapterWithPool p opts w) = (None, Some (wrap ''failed to create table: '' err))) \<and>
   (connect_fault w connStr = None \<and> \<not> usePool (apply_opts opts zero_PgxAdapter) \<and>
    pg_Ping (Conn (opened w)) (w\<lparr>opened := Suc (opened w)\<rparr>) = None \<longrightarrow>
      NewAdapter connStr opts w = NewAdapterWithConn (Some (opened w)) opts (w\<lparr>opened := Suc (opened w)\<rparr>)) \<and>
   (connect_fault w connStr = None \<and> usePool (apply_opts opts zero_PgxAdapter) \<and>
    pg_Ping (Pool (opened w)) (w\<lparr>opened := Suc (opened w)\<rparr>) = None \<longrightarrow>
      NewAdapter connStr opts w = NewAdapterWithPool (Some (opened w)) opts (w\<lparr>opened := Suc (opened w)\<rparr>))"
proof -
  have 1: "snd (fst (NewAdapter connStr opts w)) \<noteq> None \<longrightarrow> fst (fst (NewAdapter connStr opts w)) = None"
    using NewAdapter_cases [of connStr opts w] by (cases "NewAdapter connStr opts w") auto
  have 2: "snd (fst (NewAdapterWithConn c opts w)) \<noteq> None \<longrightarrow>
      fst (fst (NewAdapterWithConn c opts w)) = None"
    using NewAdapterWithConn_cases [of c opts w] by (cases "NewAdapterWithConn c opts w") auto
  have 3: "snd (fst (NewAdapterWithPool p opts w)) \<noteq> None \<longrightarrow>
      fst (fst (NewAdapterWithPool p opts w)) = None"
    using NewAdapterWithPool_cases [of p opts w] by (cases "NewAdapterWithPool p opts w") auto
  have 4: "connect_fault w connStr = Some e \<longrightarrow>
      NewAdapter connStr opts w =
        ((None, Some (Error ((if usePool (apply_opts opts zero_PgxAdapter)
                              then ''failed to create connection pool: ''
                              else ''failed to create connection: '') @ e))), w)"
    by (simp add: NewAdapter_def Let_def pgx_Connect_def pgxpool_New_def)
  have 5: "connect_fault w connStr = None \<and>
    h = (if usePool (apply_opts opts zero_PgxAdapter) then Pool (opened w) else Conn (opened w)) \<and>
    pg_Ping h (w\<lparr>opened := Suc (opened w)\<rparr>) = Some e \<longrightarrow>
      NewAdapter connStr opts w =
        ((None, Some (Error (''failed to ping database: '' @ e))),
         w\<lparr>opened := Suc (opened w), closed := closed w @ [h]\<rparr>)"
    by (auto simp: NewAdapter_def Let_def pgx_Connect_def pgxpool_New_def pg_Close_def)
  have 6: "fst (createTable (apply_opts opts
           \<lparr>db = map_option Conn c, conn = c, pool = None, tableName = defaultTableName,
            database = defaultDatabase, isFiltered = False, indexes = [], usePool = False\<rparr>) w) =
      Some err \<longrightarrow>
      fst (NewAdapterWithConn c opts w) = (None, Some (wrap ''failed to create table: '' err))"
    by (simp add: NewAdapterWithConn_def Let_def split: prod.splits)
  have 7: "fst (createTable (apply_opts opts
           \<lparr>db = map_option Pool p, conn = None, pool = p, tableName = defaultTableName,
            database = defaultDatabase, isFiltered = False, indexes = [], usePool = False\<rparr>) w) =
      Some err \<longrightarrow>
      fst (NewAdapterWithPool p opts w) = (None, Some (wrap ''failed to create table: '' err))"
    by (simp add: NewAdapterWithPool_def Let_def split: prod.splits)
  have 8: "connect_fault w connStr = None \<and> \<not> usePool (apply_opts opts zero_PgxAdapter) \<and>
    pg_Ping (Conn (opened w)) (w\<lparr>opened := Suc (opened w)\<rparr>) = None \<longrightarrow>
      NewAdapter connStr opts w = NewAdapterWithConn (Some (opened w)) opts (w\<lparr>opened := Suc (opened w)\<rparr>)"
    by (simp add: NewAdapter_def Let_def pgx_Connect_def)
  have 9: "connect_fault w connStr = None \<and> usePool (apply_opts opts zero_PgxAdapter) \<and>
    pg_Ping (Pool (opened w)) (w\<lparr>opened := Suc (opened w)\<rparr>) = None \<longrightarrow>
      NewAdapter connStr opts w = NewAdapterWithPool (Some (opened w)) opts (w\<lparr>opened := Suc (opened w)\<rparr>)"
    by (simp add: NewAdapter_def Let_def pgxpool_New_def)
  show ?thesis
    by (intro conjI) (rule 1 2 3 4 5 6 7 8 9)+
qed

lemma empty_name_fails:
  "createTable (a\<lparr>db := Some h, tableName := []\<rparr>) fresh_world =
     (Some (Error ''failed to create table: zero-length delimited identifier''),
      fresh_world\<lparr>history := [DbExec (createTableSQL (a\<lparr>db := Some h, tableName := []\<rparr>))]\<rparr>)"
proof -
  have "read_stmt (createTableSQL (a\<lparr>db := Some h, tableName := []\<rparr>)) =
      Some (CreateTable [] tableColumnsSQL)"
    using read_stmt_createTable [of "a\<lparr>db := Some h, tableName := []\<rparr>"]
    by (simp add: strip_nul_def)
  then show ?thesis
    by (simp add: createTable_def pg_Exec_def Let_def fresh_world_def)
qed

theorem construction_all_or_nothing_witness:
  "NewAdapter ''postgres://db.example/casbin'' [WithTableName ''t1''] down_world =
     ((None, Some (Error ''failed to create connection: connection refused'')), down_world) \<and>
   NewAdapter ''postgres://db.example/casbin'' [WithPool] stalled_world =
     ((None, Some (Error ''failed to ping database: timeout'')),
      stalled_world\<lparr>opened := Suc 0, closed := [Pool 0]\<rparr>) \<and>
   fst (NewAdapterWithConn (Some 0) [WithTableName []] fresh_world) =
     (None, Some (Error ''failed to create table: failed to create table: zero-length delimited identifier''))"
proof -
  have c: "connect_fault down_world ''postgres://db.example/casbin'' = Some ''connection refused''"
    by (simp add: down_world_def)
  have u1: "\<not> usePool (apply_opts [WithTableName ''t1''] zero_PgxAdapter)"
    by (simp add: WithTableName_def zero_PgxAdapter_def)
  have u2: "usePool (apply_opts [WithPool] zero_PgxAdapter)"
    by (simp add: WithPool_def zero_PgxAdapter_def)
  have p: "connect_fault stalled_world ''postgres://db.example/casbin'' = None"
    "opened stalled_world = 0" "closed stalled_world = []"
    "pg_Ping (Pool 0) (stalled_world\<lparr>opened := Suc 0\<rparr>) = Some ''timeout''"
    by (simp_all add: stalled_world_def fresh_world_def pg_Ping_def)
  have d: "fst (createTable (apply_opts [WithTableName []]
           \<lparr>db = map_option Conn (Some 0), conn = Some 0, pool = None, tableName = defaultTableName,
            database = defaultDatabase, isFiltered = False, indexes = [], usePool = False\<rparr>) fresh_world) =
      Some (Error ''failed to create table: zero-length delimited identifier'')"
    using empty_name_fails [where a = "\<lparr>db = Some (Conn 0), conn = Some 0, pool = None,
            tableName = defaultTableName, database = defaultDatabase, isFiltered = False,
            indexes = [], usePool = False\<rparr>" and h = "Conn 0"]
    by (simp add: WithTableName_def)
  note t1 = construction_all_or_nothing [of "''postgres://db.example/casbin''" "[WithTableName ''t1'']"
      down_world "Some 0" "Some 0" "''connection refused''" "Conn 0" "Error []"]
  note t2 = construction_all_or_nothing [of "''postgres://db.example/casbin''" "[WithPool]"
      stalled_world "Some 0" "Some 0" "''timeout''" "Pool 0" "Error []"]
  note t3 = construction_all_or_nothing [of "''postgres://db.example/casbin''" "[WithTableName []]"
      fresh_world "Some 0" "Some 0" "''timeout''" "Pool 0"
      "Error ''failed to create table: zero-length delimited identifier''"]
  have a: "NewAdapter ''postgres://db.example/casbin'' [WithTableName ''t1''] down_world =
     ((None, Some (Error ''failed to create connection: connection refused'')), down_world)"
    using t1 c u1 by simp
  have b: "NewAdapter ''postgres://db.example/casbin'' [WithPool] stalled_world =
     ((None, Some (Error ''failed to ping database: timeout'')),
      stalled_world\<lparr>opened := Suc 0, closed := [Pool 0]\<rparr>)"
    using t2 p u2 by simp
  have e: "fst (NewAdapterWithConn (Some 0) [WithTableName []] fresh_world) =
     (None, Some (Error ''failed to create table: failed to create table: zero-length delimited identifier''))"
    using t3 d by simp
  show ?thesis using a b e by blast
qed

end
